theory Spec2Isabelle
  imports Main
begin

section \<open>The TODO list service of backend/app/main.py\<close>

text \<open>
  The service keeps two SQL tables, \<open>users\<close> and \<open>todos\<close>, and serves seven routes over
  them. Each route handler of the source is a function here that takes the database and
  returns either the exception it raises or its return value, together with the
  database it leaves behind when it writes.
\<close>

subsection \<open>Rows, request bodies, errors\<close>

text \<open>
  \<open>class UserDB(Base)\<close> and \<open>class TodoDB(Base)\<close>: one record per table row. The column
  \<open>id\<close> of each table is written \<open>user_id\<close> and \<open>todo_id\<close>, since \<open>id\<close> is the identity
  function of HOL.
\<close>

record UserDB =
  user_id :: int
  username :: string
  hashed_password :: string

record TodoDB =
  todo_id :: int
  title :: string
  completed :: bool
  owner :: string

text \<open>
  The two tables. A table is the list of its rows in the order of insertion. The module
  drops and recreates both tables when it is loaded, so the service starts from
  \<open>init_db\<close>.
\<close>

record database =
  users :: "UserDB list"
  todos :: "TodoDB list"

definition init_db :: database where
  "init_db = \<lparr>users = [], todos = []\<rparr>"

text \<open>
  The pydantic models of the request bodies, \<open>class UserCreate\<close> and \<open>class TodoCreate\<close>,
  and the \<open>HTTPBasicCredentials\<close> of the Authorization header. \<open>TodoCreate\<close> has the two
  fields \<open>title\<close> and \<open>completed\<close> and no other.
\<close>

record UserCreate =
  new_username :: string
  new_password :: string

record TodoCreate =
  body_title :: string
  body_completed :: bool

record HTTPBasicCredentials =
  cred_username :: string
  cred_password :: string

text \<open>
  The exceptions that leave a handler. \<open>HTTPException(status_code, detail)\<close> is raised
  by the source itself, three of them: 400 on a username that is taken (the Conflict of
  the specification), 401 on bad credentials (Unauthorized) and 404 on a todo that the
  query does not find (NotFound). \<open>UnicodeEncodeError\<close> and \<open>OverflowError\<close> are raised
  by the library calls of the handlers, on a string that has no UTF-8 encoding and on an
  integer that the engine cannot hold; no handler catches them, and the server answers
  them with status 500.
\<close>

datatype exception = HTTPException nat string | UnicodeEncodeError | OverflowError

definition Conflict :: exception where
  "Conflict = HTTPException 400 ''Username already registered''"

definition Unauthorized :: exception where
  "Unauthorized = HTTPException 401 ''Incorrect username or password''"

definition NotFound :: exception where
  "NotFound = HTTPException 404 ''Todo not found''"

subsection \<open>Strings\<close>

text \<open>
  A Python \<open>str\<close> is a sequence of code points, and a code point in the surrogate range
  D800 to DFFF has no UTF-8 encoding: \<open>str.encode()\<close> raises \<open>UnicodeEncodeError\<close> on
  it, and so does the database driver when it binds the string to a statement. A \<open>str\<close>
  is modelled by the bytes of its UTF-8 encoding, with a surrogate written as the three
  bytes that the error handler \<open>surrogatepass\<close> gives it: ED, a byte from A0 to BF, and
  one continuation byte. No other code point has such bytes, so \<open>has_surrogate\<close> says
  whether the string holds a surrogate, and \<open>encode\<close> is \<open>str.encode()\<close>: the bytes
  themselves, or the exception.
\<close>

fun has_surrogate :: "string \<Rightarrow> bool" where
  "has_surrogate (a # b # s) =
     (if a = CHR 0xED \<and> (0xA0 :: nat) \<le> of_char b \<and> of_char b \<le> (0xBF :: nat) then True
      else has_surrogate (b # s))"
| "has_surrogate s = False"

definition encode :: "string \<Rightarrow> exception + string" where
  "encode s = (if has_surrogate s then Inl UnicodeEncodeError else Inr s)"

subsection \<open>The storage engine\<close>

text \<open>
  \<open>Query.first()\<close>: the first row of the result, or \<open>None\<close> when there is none.
\<close>

fun first :: "'a list \<Rightarrow> 'a option" where
  "first [] = None"
| "first (x # xs) = Some x"

text \<open>
  Both tables declare \<open>id = Column(Integer, primary_key=True)\<close> on an SQLite database, and
  no handler ever sets the column: the engine assigns it on INSERT, 1 in an empty table
  and one more than the largest \<open>id\<close> in the table otherwise.
\<close>

definition next_id :: "int list \<Rightarrow> int" where
  "next_id ids = (if ids = [] then 1 else Max (set ids) + 1)"

text \<open>
  The \<open>todo_id\<close> of a route is a Python \<open>int\<close> of any size, and the engine's INTEGER
  is a signed 64-bit number: when the driver binds the \<open>todo_id\<close> to the query of a
  handler, an \<open>int\<close> outside that range raises \<open>OverflowError\<close>. \<open>bind_id\<close> is this
  conversion; the handlers below take the id that it returns, an \<open>sqlite_integer\<close>.
\<close>

type_synonym sqlite_integer = int

definition sqlite_int :: "int \<Rightarrow> bool" where
  "sqlite_int n \<longleftrightarrow> - (2 ^ 63) \<le> n \<and> n < 2 ^ 63"

definition bind_id :: "int \<Rightarrow> exception + sqlite_integer" where
  "bind_id n = (if sqlite_int n then Inr n else Inl OverflowError)"

subsection \<open>Password hashing\<close>

text \<open>
  \<open>get_password_hash\<close> is \<open>hashlib.sha256(password.encode()).hexdigest()\<close>. The digest
  function belongs to the Python library, not to this repository: it is the parameter
  \<open>sha256\<close> of every function that hashes, a function of the bytes of the password and
  of nothing else, as the call in the source is. The bytes of a password that
  \<open>password.encode()\<close> accepts are the password as it is modelled; the exception that
  \<open>encode\<close> raises on any other is raised in \<open>create_user\<close>, the one caller that
  hashes a string of a request body.
\<close>

definition get_password_hash :: "(string \<Rightarrow> string) \<Rightarrow> string \<Rightarrow> string" where
  "get_password_hash sha256 password = sha256 password"

definition verify_password :: "(string \<Rightarrow> string) \<Rightarrow> string \<Rightarrow> string \<Rightarrow> bool" where
  "verify_password sha256 plain_password hashed = (get_password_hash sha256 plain_password = hashed)"

subsection \<open>Authentication\<close>

text \<open>
  \<open>get_current_user\<close>: the first user row with the claimed username; 401 when there is
  none or when the password does not verify against its digest; the row's username
  otherwise. The credentials are those of \<open>HTTPBasic\<close>, which decodes the header as
  ASCII: they hold no surrogate.
\<close>

definition get_current_user ::
  "(string \<Rightarrow> string) \<Rightarrow> HTTPBasicCredentials \<Rightarrow> database \<Rightarrow> exception + string" where
  "get_current_user sha256 credentials db =
     (case first (filter (\<lambda>u. username u = cred_username credentials) (users db)) of
        None \<Rightarrow> Inl Unauthorized
      | Some user \<Rightarrow>
          if \<not> verify_password sha256 (cred_password credentials) (hashed_password user)
          then Inl Unauthorized
          else Inr (username user))"

subsection \<open>User management\<close>

text \<open>
  \<open>create_user\<close> (POST /users/): the query binds the username of the body; 400 when a
  row with the username exists; otherwise the password is encoded and hashed, and a new
  row with the digest is added, committed and returned. \<open>UserCreate\<close> declares two
  \<open>str\<close> fields and no validator, so that either string may hold a surrogate.
\<close>

definition create_user ::
  "(string \<Rightarrow> string) \<Rightarrow> UserCreate \<Rightarrow> database \<Rightarrow> exception + (UserDB \<times> database)" where
  "create_user sha256 user db =
     (case encode (new_username user) of
        Inl e \<Rightarrow> Inl e
      | Inr bound \<Rightarrow>
          (case first (filter (\<lambda>u. username u = new_username user) (users db)) of
             Some db_user \<Rightarrow> Inl Conflict
           | None \<Rightarrow>
               (case encode (new_password user) of
                  Inl e \<Rightarrow> Inl e
                | Inr bytes \<Rightarrow>
                    let hashed = get_password_hash sha256 (new_password user);
                        db_user = \<lparr>user_id = next_id (map user_id (users db)),
                                   username = new_username user,
                                   hashed_password = hashed\<rparr>
                    in Inr (db_user, db\<lparr>users := users db @ [db_user]\<rparr>))))"

text \<open>\<open>read_users_me\<close> (GET /users/me/): the authenticated username, echoed.\<close>

definition read_users_me :: "string \<Rightarrow> string" where
  "read_users_me current_user = current_user"

subsection \<open>Todo operations\<close>

text \<open>
  The query shared by \<open>read_todo\<close>, \<open>update_todo\<close> and \<open>delete_todo\<close>:
  \<open>db.query(TodoDB).filter(TodoDB.id == todo_id).filter(TodoDB.owner == current_user).first()\<close>,
  on an id that is bound.
\<close>

definition query_todo :: "sqlite_integer \<Rightarrow> string \<Rightarrow> database \<Rightarrow> TodoDB option" where
  "query_todo tid current_user db =
     first (filter (\<lambda>t. owner t = current_user) (filter (\<lambda>t. todo_id t = tid) (todos db)))"

text \<open>\<open>read_todos\<close> (GET /todos): every row whose owner is the caller.\<close>

definition read_todos :: "string \<Rightarrow> database \<Rightarrow> TodoDB list" where
  "read_todos current_user db = filter (\<lambda>t. owner t = current_user) (todos db)"

text \<open>\<open>read_todo\<close> (GET /todos/{todo_id}): the row of the query, or 404.\<close>

definition read_todo :: "sqlite_integer \<Rightarrow> string \<Rightarrow> database \<Rightarrow> exception + TodoDB" where
  "read_todo tid current_user db =
     (case query_todo tid current_user db of
        None \<Rightarrow> Inl NotFound
      | Some todo \<Rightarrow> Inr todo)"

text \<open>
  \<open>create_todo\<close> (POST /todos): \<open>TodoDB(**todo.dict(), owner=current_user)\<close> is added,
  committed and returned; the engine assigns the id. The handler raises nothing of its
  own, and the title is stored as it is given: the driver's encoding of a title, on
  INSERT and on UPDATE, is not modelled.
\<close>

definition create_todo :: "TodoCreate \<Rightarrow> string \<Rightarrow> database \<Rightarrow> TodoDB \<times> database" where
  "create_todo todo current_user db =
     (let db_todo = \<lparr>todo_id = next_id (map todo_id (todos db)),
                     title = body_title todo,
                     completed = body_completed todo,
                     owner = current_user\<rparr>
      in (db_todo, db\<lparr>todos := todos db @ [db_todo]\<rparr>))"

text \<open>
  The values a field of a request body can hold, and \<open>todo.dict()\<close>: the fields of a
  \<open>TodoCreate\<close> as key/value pairs, in the order of declaration.
\<close>

datatype pyval = PyStr string | PyBool bool | PyInt int

definition TodoCreate_dict :: "TodoCreate \<Rightarrow> (string \<times> pyval) list" where
  "TodoCreate_dict todo =
     [(''title'', PyStr (body_title todo)), (''completed'', PyBool (body_completed todo))]"

text \<open>
  \<open>setattr(db_todo, key, value)\<close> on a \<open>TodoDB\<close> object: a key that names a column sets
  that column. A key that names no column sets a plain Python attribute, which is not
  stored, and so does not change the row; the same is written here for a value that is
  not of the column's type, which no \<open>TodoCreate\<close> supplies.
\<close>

fun setattr :: "TodoDB \<Rightarrow> string \<Rightarrow> pyval \<Rightarrow> TodoDB" where
  "setattr obj key (PyInt n) = (if key = ''id'' then obj\<lparr>todo_id := n\<rparr> else obj)"
| "setattr obj key (PyStr s) =
     (if key = ''title'' then obj\<lparr>title := s\<rparr>
      else if key = ''owner'' then obj\<lparr>owner := s\<rparr>
      else obj)"
| "setattr obj key (PyBool b) = (if key = ''completed'' then obj\<lparr>completed := b\<rparr> else obj)"

text \<open>
  \<open>update_todo\<close> (PUT /todos/{todo_id}): 404 when the query finds no row; otherwise the
  loop \<open>for key, value in todo.dict().items(): setattr(db_todo, key, value)\<close> runs over
  the row, the commit writes the object back to the row of its primary key, and the
  object is returned.
\<close>

definition update_todo ::
  "sqlite_integer \<Rightarrow> TodoCreate \<Rightarrow> string \<Rightarrow> database \<Rightarrow> exception + (TodoDB \<times> database)" where
  "update_todo tid todo current_user db =
     (case query_todo tid current_user db of
        None \<Rightarrow> Inl NotFound
      | Some db_todo \<Rightarrow>
          let db_todo' = fold (\<lambda>(key, value) obj. setattr obj key value) (TodoCreate_dict todo) db_todo
          in Inr (db_todo',
                  db\<lparr>todos := map (\<lambda>t. if todo_id t = todo_id db_todo then db_todo' else t) (todos db)\<rparr>))"

text \<open>
  \<open>delete_todo\<close> (DELETE /todos/{todo_id}): 404 when the query finds no row; otherwise
  the row of the object's primary key is deleted and the handler returns \<open>None\<close>.
\<close>

definition delete_todo :: "sqlite_integer \<Rightarrow> string \<Rightarrow> database \<Rightarrow> exception + (unit \<times> database)" where
  "delete_todo tid current_user db =
     (case query_todo tid current_user db of
        None \<Rightarrow> Inl NotFound
      | Some db_todo \<Rightarrow>
          Inr ((), db\<lparr>todos := filter (\<lambda>t. todo_id t \<noteq> todo_id db_todo) (todos db)\<rparr>))"

subsection \<open>Routing\<close>

text \<open>
  The seven routes that reach the database or the credentials. A handler with the
  parameter \<open>current_user: Annotated[str, Depends(get_current_user)]\<close> runs only after
  \<open>get_current_user\<close> has returned; when that raises, its exception is the response.
  The three handlers with a \<open>todo_id\<close> then bind it to their query, and the
  \<open>OverflowError\<close> of \<open>bind_id\<close> is the response when it is raised.
  The body of a response follows the route's \<open>response_model\<close>: \<open>User\<close> carries the
  username alone, \<open>Todo\<close> the four columns of the row.
\<close>

datatype request =
    POST_users UserCreate
  | GET_users_me HTTPBasicCredentials
  | GET_todos HTTPBasicCredentials
  | GET_todo HTTPBasicCredentials int
  | POST_todos HTTPBasicCredentials TodoCreate
  | PUT_todo HTTPBasicCredentials int TodoCreate
  | DELETE_todo HTTPBasicCredentials int

datatype response =
    User_out string
  | Todos_out "TodoDB list"
  | Todo_out TodoDB
  | No_content
  | Error exception

fun serve :: "(string \<Rightarrow> string) \<Rightarrow> request \<Rightarrow> database \<Rightarrow> response \<times> database" where
  "serve sha256 (POST_users user) db =
     (case create_user sha256 user db of
        Inl e \<Rightarrow> (Error e, db)
      | Inr (db_user, db') \<Rightarrow> (User_out (username db_user), db'))"
| "serve sha256 (GET_users_me credentials) db =
     (case get_current_user sha256 credentials db of
        Inl e \<Rightarrow> (Error e, db)
      | Inr current_user \<Rightarrow> (User_out (read_users_me current_user), db))"
| "serve sha256 (GET_todos credentials) db =
     (case get_current_user sha256 credentials db of
        Inl e \<Rightarrow> (Error e, db)
      | Inr current_user \<Rightarrow> (Todos_out (read_todos current_user db), db))"
| "serve sha256 (GET_todo credentials tid) db =
     (case get_current_user sha256 credentials db of
        Inl e \<Rightarrow> (Error e, db)
      | Inr current_user \<Rightarrow>
          (case bind_id tid of
             Inl e \<Rightarrow> (Error e, db)
           | Inr bound \<Rightarrow>
               (case read_todo bound current_user db of
                  Inl e \<Rightarrow> (Error e, db)
                | Inr todo \<Rightarrow> (Todo_out todo, db))))"
| "serve sha256 (POST_todos credentials todo) db =
     (case get_current_user sha256 credentials db of
        Inl e \<Rightarrow> (Error e, db)
      | Inr current_user \<Rightarrow>
          (case create_todo todo current_user db of
             (db_todo, db') \<Rightarrow> (Todo_out db_todo, db')))"
| "serve sha256 (PUT_todo credentials tid todo) db =
     (case get_current_user sha256 credentials db of
        Inl e \<Rightarrow> (Error e, db)
      | Inr current_user \<Rightarrow>
          (case bind_id tid of
             Inl e \<Rightarrow> (Error e, db)
           | Inr bound \<Rightarrow>
               (case update_todo bound todo current_user db of
                  Inl e \<Rightarrow> (Error e, db)
                | Inr (db_todo, db') \<Rightarrow> (Todo_out db_todo, db'))))"
| "serve sha256 (DELETE_todo credentials tid) db =
     (case get_current_user sha256 credentials db of
        Inl e \<Rightarrow> (Error e, db)
      | Inr current_user \<Rightarrow>
          (case bind_id tid of
             Inl e \<Rightarrow> (Error e, db)
           | Inr bound \<Rightarrow>
               (case delete_todo bound current_user db of
                  Inl e \<Rightarrow> (Error e, db)
                | Inr (u, db') \<Rightarrow> (No_content, db'))))"

text \<open>The database after a sequence of requests, served one after the other.\<close>

fun run :: "(string \<Rightarrow> string) \<Rightarrow> request list \<Rightarrow> database \<Rightarrow> database" where
  "run sha256 [] db = db"
| "run sha256 (req # reqs) db = run sha256 reqs (snd (serve sha256 req db))"

text \<open>
  What the two key constraints of the tables say: \<open>id\<close> is the primary key of \<open>todos\<close>,
  and \<open>username\<close> is declared \<open>unique=True\<close> in \<open>users\<close>.
\<close>

definition keys_ok :: "database \<Rightarrow> bool" where
  "keys_ok db \<longleftrightarrow> distinct (map todo_id (todos db)) \<and> distinct (map username (users db))"

subsection \<open>The example scenario\<close>

text \<open>
  The scenario of the specification: alice and bob register, alice creates the todo
  "buy milk". \<open>example_sha\<close> stands in for the library digest in the examples; bob's
  todo is added so that each caller owns a row.
\<close>

definition example_sha :: "string \<Rightarrow> string" where
  "example_sha password = ''sha256('' @ password @ '')''"

definition alice :: HTTPBasicCredentials where
  "alice = \<lparr>cred_username = ''alice'', cred_password = ''pw1''\<rparr>"

definition bob :: HTTPBasicCredentials where
  "bob = \<lparr>cred_username = ''bob'', cred_password = ''pw2''\<rparr>"

definition example_requests :: "request list" where
  "example_requests =
     [POST_users \<lparr>new_username = ''alice'', new_password = ''pw1''\<rparr>,
      POST_users \<lparr>new_username = ''bob'', new_password = ''pw2''\<rparr>,
      POST_todos alice \<lparr>body_title = ''buy milk'', body_completed = False\<rparr>,
      POST_todos bob \<lparr>body_title = ''call home'', body_completed = False\<rparr>]"

definition alice_todo :: TodoDB where
  "alice_todo = \<lparr>todo_id = 1, title = ''buy milk'', completed = False, owner = ''alice''\<rparr>"

definition bob_todo :: TodoDB where
  "bob_todo = \<lparr>todo_id = 2, title = ''call home'', completed = False, owner = ''bob''\<rparr>"

definition example_db :: database where
  "example_db =
     \<lparr>users = [\<lparr>user_id = 1, username = ''alice'', hashed_password = ''sha256(pw1)''\<rparr>,
               \<lparr>user_id = 2, username = ''bob'', hashed_password = ''sha256(pw2)''\<rparr>],
      todos = [alice_todo, bob_todo]\<rparr>"

section \<open>Properties\<close>

subsection \<open>Queries\<close>

lemma first_None_iff: "first xs = None \<longleftrightarrow> xs = []"
  by (cases xs) simp_all

lemma first_Some_mem: "first xs = Some x \<Longrightarrow> x \<in> set xs"
  by (cases xs) auto

lemma first_filter_None: "first (filter P xs) = None \<longleftrightarrow> (\<forall>x\<in>set xs. \<not> P x)"
  by (simp add: first_None_iff filter_empty_conv)

lemma first_filter_Some: "first (filter P xs) = Some x \<Longrightarrow> x \<in> set xs \<and> P x"
  using first_Some_mem [of "filter P xs" x] by simp

lemma first_filter_append:
  "first (filter P xs) = Some x \<Longrightarrow> first (filter P (xs @ ys)) = Some x"
  by (cases "filter P xs") simp_all

lemma first_filter_unique:
  "distinct (map f xs) \<Longrightarrow> x \<in> set xs \<Longrightarrow> P x \<Longrightarrow> (\<And>y. y \<in> set xs \<Longrightarrow> P y \<Longrightarrow> f y = f x)
     \<Longrightarrow> first (filter P xs) = Some x"
proof (induction xs)
  case Nil
  then show ?case by simp
next
  case (Cons a xs)
  show ?case
  proof (cases "P a")
    case True
    then have "f a = f x" using Cons.prems(4) by simp
    moreover have "f a \<notin> f ` set xs" using Cons.prems(1) by simp
    ultimately have "x \<notin> set xs" by (metis imageI)
    then have "a = x" using Cons.prems(2) by simp
    then show ?thesis using True by simp
  next
    case False
    then have "a \<noteq> x" using Cons.prems(3) by blast
    then have mem: "x \<in> set xs" using Cons.prems(2) by simp
    have d: "distinct (map f xs)" using Cons.prems(1) by simp
    have "first (filter P xs) = Some x"
      using Cons.IH [OF d mem Cons.prems(3)] Cons.prems(4) by simp
    then show ?thesis using False by simp
  qed
qed

lemma distinct_id_eq:
  "distinct (map f xs) \<Longrightarrow> x \<in> set xs \<Longrightarrow> y \<in> set xs \<Longrightarrow> f x = f y \<Longrightarrow> x = y"
  by (simp add: distinct_map inj_on_def)

text \<open>The id that the engine assigns is not the id of any row of the table.\<close>

lemma next_id_fresh: "next_id ids \<notin> set ids"
proof
  assume mem: "next_id ids \<in> set ids"
  then have ne: "ids \<noteq> []" by auto
  have "next_id ids \<le> Max (set ids)" using mem by (intro Max_ge) simp_all
  moreover have "next_id ids = Max (set ids) + 1" using ne by (simp add: next_id_def)
  ultimately show False by linarith
qed


lemma query_todo_Some:
  "query_todo tid u db = Some t \<Longrightarrow> t \<in> set (todos db) \<and> todo_id t = tid \<and> owner t = u"
  unfolding query_todo_def using first_filter_Some [of "\<lambda>t. owner t = u" "filter (\<lambda>t. todo_id t = tid) (todos db)" t]
  by simp

lemma query_todo_None:
  "query_todo tid u db = None \<longleftrightarrow> (\<forall>t\<in>set (todos db). todo_id t = tid \<longrightarrow> owner t \<noteq> u)"
  unfolding query_todo_def first_filter_None by auto

lemma query_todo_conj:
  "query_todo tid u db = first (filter (\<lambda>t. todo_id t = tid \<and> owner t = u) (todos db))"
  unfolding query_todo_def by (simp add: conj_commute)

lemma query_todo_unique:
  assumes d: "distinct (map todo_id (todos db))" and m: "t \<in> set (todos db)"
  shows "query_todo (todo_id t) u db = (if owner t = u then Some t else None)"
proof (cases "owner t = u")
  case True
  have "first (filter (\<lambda>x. todo_id x = todo_id t \<and> owner x = u) (todos db)) = Some t"
    by (rule first_filter_unique [where f = todo_id, OF d m]) (simp_all add: True)
  then show ?thesis using True by (simp add: query_todo_conj)
next
  case False
  have "\<And>x. x \<in> set (todos db) \<Longrightarrow> todo_id x = todo_id t \<Longrightarrow> owner x \<noteq> u"
  proof -
    fix x assume "x \<in> set (todos db)" "todo_id x = todo_id t"
    then have "x = t" using distinct_id_eq [OF d _ m] by simp
    then show "owner x \<noteq> u" using False by simp
  qed
  then have "query_todo (todo_id t) u db = None" unfolding query_todo_None by blast
  then show ?thesis using False by simp
qed

subsection \<open>What each handler returns\<close>

lemma create_user_Inr:
  "create_user sha256 user db = Inr (r, db') \<longleftrightarrow>
     \<not> has_surrogate (new_username user) \<and> \<not> has_surrogate (new_password user) \<and>
     (\<forall>u\<in>set (users db). username u \<noteq> new_username user) \<and>
     r = \<lparr>user_id = next_id (map user_id (users db)), username = new_username user,
          hashed_password = sha256 (new_password user)\<rparr> \<and>
     db' = db\<lparr>users := users db @ [r]\<rparr>"
proof (cases "first (filter (\<lambda>u. username u = new_username user) (users db))")
  case None
  then have "\<forall>u\<in>set (users db). username u \<noteq> new_username user"
    by (simp add: first_filter_None)
  then show ?thesis using None
    by (auto simp: create_user_def encode_def get_password_hash_def Let_def)
next
  case (Some a)
  then have "a \<in> set (users db) \<and> username a = new_username user"
    by (rule first_filter_Some)
  then show ?thesis using Some by (auto simp: create_user_def encode_def)
qed

lemma create_user_Inl:
  "create_user sha256 user db = Inl e \<longleftrightarrow>
     (if has_surrogate (new_username user) then e = UnicodeEncodeError
      else if \<exists>u\<in>set (users db). username u = new_username user then e = Conflict
      else has_surrogate (new_password user) \<and> e = UnicodeEncodeError)"
proof (cases "first (filter (\<lambda>u. username u = new_username user) (users db))")
  case None
  then have "\<forall>u\<in>set (users db). username u \<noteq> new_username user"
    by (simp add: first_filter_None)
  then show ?thesis using None by (auto simp: create_user_def encode_def Let_def)
next
  case (Some a)
  then have "a \<in> set (users db) \<and> username a = new_username user"
    by (rule first_filter_Some)
  then show ?thesis using Some by (auto simp: create_user_def encode_def)
qed

lemma create_todo_eq:
  "create_todo todo u db =
     (\<lparr>todo_id = next_id (map todo_id (todos db)), title = body_title todo,
       completed = body_completed todo, owner = u\<rparr>,
      db\<lparr>todos := todos db @ [\<lparr>todo_id = next_id (map todo_id (todos db)), title = body_title todo,
       completed = body_completed todo, owner = u\<rparr>]\<rparr>)"
  by (simp add: create_todo_def Let_def)

lemma update_loop:
  "fold (\<lambda>(key, value) obj. setattr obj key value) (TodoCreate_dict todo) obj =
     obj\<lparr>title := body_title todo, completed := body_completed todo\<rparr>"
  by (simp add: TodoCreate_dict_def)

lemma update_todo_Inr:
  "update_todo tid todo u db = Inr (r, db') \<longleftrightarrow>
     (\<exists>t. query_todo tid u db = Some t \<and>
          r = t\<lparr>title := body_title todo, completed := body_completed todo\<rparr> \<and>
          db' = db\<lparr>todos := map (\<lambda>x. if todo_id x = todo_id t then r else x) (todos db)\<rparr>)"
  unfolding update_todo_def update_loop
  by (cases "query_todo tid u db") (auto simp: Let_def)

lemma update_todo_Inl:
  "update_todo tid todo u db = Inl e \<longleftrightarrow> e = NotFound \<and> query_todo tid u db = None"
  unfolding update_todo_def
  by (cases "query_todo tid u db") (auto simp: Let_def)

lemma delete_todo_Inr:
  "delete_todo tid u db = Inr (x, db') \<longleftrightarrow>
     (\<exists>t. query_todo tid u db = Some t \<and>
          db' = db\<lparr>todos := filter (\<lambda>x. todo_id x \<noteq> todo_id t) (todos db)\<rparr>)"
  unfolding delete_todo_def
  by (cases "query_todo tid u db") auto

lemma delete_todo_Inl:
  "delete_todo tid u db = Inl e \<longleftrightarrow> e = NotFound \<and> query_todo tid u db = None"
  unfolding delete_todo_def
  by (cases "query_todo tid u db") auto


lemma read_todo_Inl:
  "read_todo tid u db = Inl e \<longleftrightarrow> e = NotFound \<and> query_todo tid u db = None"
  unfolding read_todo_def by (cases "query_todo tid u db") auto

lemma get_current_user_unique:
  assumes d: "distinct (map username (users db))"
  shows "get_current_user sha256 credentials db =
      (if \<exists>u\<in>set (users db). username u = cred_username credentials \<and>
            get_password_hash sha256 (cred_password credentials) = hashed_password u
       then Inr (cred_username credentials) else Inl Unauthorized)"
proof (cases "first (filter (\<lambda>u. username u = cred_username credentials) (users db))")
  case None
  then have "\<forall>u\<in>set (users db). username u \<noteq> cred_username credentials"
    by (simp add: first_filter_None)
  then show ?thesis using None by (auto simp: get_current_user_def)
next
  case (Some a)
  then have a: "a \<in> set (users db)" "username a = cred_username credentials"
    using first_filter_Some [OF Some] by simp_all
  have only: "u = a" if "u \<in> set (users db)" "username u = cred_username credentials" for u
    using distinct_id_eq [OF d that(1) a(1)] that(2) a(2) by simp
  show ?thesis
  proof (cases "get_password_hash sha256 (cred_password credentials) = hashed_password a")
    case True
    then have "\<exists>u\<in>set (users db). username u = cred_username credentials \<and>
            get_password_hash sha256 (cred_password credentials) = hashed_password u"
      using a by auto
    then show ?thesis using Some True a
      by (simp add: get_current_user_def verify_password_def)
  next
    case False
    then have "\<not> (\<exists>u\<in>set (users db). username u = cred_username credentials \<and>
            get_password_hash sha256 (cred_password credentials) = hashed_password u)"
      using only by auto
    then show ?thesis using Some False
      by (simp add: get_current_user_def verify_password_def)
  qed
qed

subsection \<open>The key constraints hold in every state the service reaches\<close>

lemma keys_ok_init: "keys_ok init_db"
  by (simp add: keys_ok_def init_db_def)

lemma create_user_keys_ok:
  "keys_ok db \<Longrightarrow> create_user sha256 user db = Inr (r, db') \<Longrightarrow> keys_ok db'"
  unfolding create_user_Inr keys_ok_def by auto

lemma create_todo_keys_ok:
  "keys_ok db \<Longrightarrow> create_todo todo u db = (t, db') \<Longrightarrow> keys_ok db'"
  using next_id_fresh [of "map todo_id (todos db)"]
  unfolding create_todo_eq keys_ok_def by auto

lemma update_todo_keys_ok:
  assumes "keys_ok db" "update_todo tid todo u db = Inr (r, db')"
  shows "keys_ok db'"
proof -
  from assms(2) [unfolded update_todo_Inr] obtain t where
    r: "r = t\<lparr>title := body_title todo, completed := body_completed todo\<rparr>" and
    db': "db' = db\<lparr>todos := map (\<lambda>x. if todo_id x = todo_id t then r else x) (todos db)\<rparr>"
    by fast
  have e1: "map todo_id (todos db') = map todo_id (todos db)"
    unfolding db' by (simp add: r)
  have e2: "users db' = users db"
    unfolding db' by simp
  show ?thesis using assms(1) unfolding keys_ok_def e1 e2 .
qed

lemma delete_todo_keys_ok:
  assumes "keys_ok db" "delete_todo tid u db = Inr (x, db')"
  shows "keys_ok db'"
proof -
  from assms(2) [unfolded delete_todo_Inr] obtain t :: TodoDB where
    db': "db' = db\<lparr>todos := filter (\<lambda>x. todo_id x \<noteq> todo_id t) (todos db)\<rparr>"
    by fast
  have e1: "distinct (map todo_id (todos db'))"
    using assms(1) unfolding db' keys_ok_def by (simp add: distinct_map_filter)
  have e2: "users db' = users db"
    unfolding db' by simp
  show ?thesis using assms(1) e1 unfolding keys_ok_def e2 by simp
qed

lemma serve_keys_ok: "keys_ok db \<Longrightarrow> keys_ok (snd (serve sha256 req db))"
proof (cases req)
  case (POST_users user)
  assume "keys_ok db"
  then show ?thesis using POST_users
    by (auto split: sum.splits dest: create_user_keys_ok)
next
  case (POST_todos c todo)
  assume "keys_ok db"
  then show ?thesis using POST_todos
    by (auto split: sum.splits prod.splits dest: create_todo_keys_ok)
next
  case (PUT_todo c tid todo)
  assume "keys_ok db"
  then show ?thesis using PUT_todo
    by (auto split: sum.splits dest: update_todo_keys_ok)
next
  case (DELETE_todo c tid)
  assume "keys_ok db"
  then show ?thesis using DELETE_todo
    by (auto split: sum.splits dest: delete_todo_keys_ok)
qed (auto split: sum.splits)

lemma run_keys_ok: "keys_ok db \<Longrightarrow> keys_ok (run sha256 reqs db)"
  by (induction reqs arbitrary: db) (simp_all add: serve_keys_ok)

lemma keys_ok_reachable: "keys_ok (run sha256 reqs init_db)"
  by (rule run_keys_ok [OF keys_ok_init])

text \<open>No request removes or changes a user row: the table only grows at its end.\<close>

lemma serve_users: "\<exists>new. users (snd (serve sha256 req db)) = users db @ new"
proof (cases req)
  case (POST_users user)
  then show ?thesis by (auto split: sum.splits simp: create_user_Inr)
next
  case (POST_todos c todo)
  then show ?thesis by (auto split: sum.splits simp: create_todo_eq)
next
  case (PUT_todo c tid todo)
  then show ?thesis by (auto split: sum.splits simp: update_todo_Inr)
next
  case (DELETE_todo c tid)
  then show ?thesis by (auto split: sum.splits simp: delete_todo_Inr)
qed (auto split: sum.splits)

lemma run_users: "\<exists>new. users (run sha256 reqs db) = users db @ new"
proof (induction reqs arbitrary: db)
  case Nil
  then show ?case by simp
next
  case (Cons req reqs)
  obtain n1 where n1: "users (snd (serve sha256 req db)) = users db @ n1"
    using serve_users by blast
  obtain n2 where "users (run sha256 reqs (snd (serve sha256 req db))) = users (snd (serve sha256 req db)) @ n2"
    using Cons.IH by blast
  then show ?case using n1 by simp
qed

lemma registered_row_persists:
  assumes "create_user sha256 user db = Inr (r, db1)"
  shows "first (filter (\<lambda>u. username u = new_username user) (users (run sha256 reqs db1))) = Some r"
    and "username r = new_username user"
    and "hashed_password r = sha256 (new_password user)"
proof -
  from assms [unfolded create_user_Inr] have
    none: "\<forall>u\<in>set (users db). username u \<noteq> new_username user" and
    r: "r = \<lparr>user_id = next_id (map user_id (users db)), username = new_username user,
            hashed_password = sha256 (new_password user)\<rparr>" and
    db1: "users db1 = users db @ [r]"
    by simp_all
  show "username r = new_username user" "hashed_password r = sha256 (new_password user)"
    by (simp_all add: r)
  have "filter (\<lambda>u. username u = new_username user) (users db) = []"
    using none by (simp add: filter_empty_conv)
  then have h1: "first (filter (\<lambda>u. username u = new_username user) (users db1)) = Some r"
    unfolding db1 by (simp add: r)
  obtain new where new: "users (run sha256 reqs db1) = users db1 @ new"
    using run_users by fast
  show "first (filter (\<lambda>u. username u = new_username user) (users (run sha256 reqs db1))) = Some r"
    unfolding new by (rule first_filter_append [OF h1])
qed

subsection \<open>The example scenario, run\<close>

lemmas ex_defs = example_db_def alice_todo_def bob_todo_def

lemma example_scenario: "run example_sha example_requests init_db = example_db"
  by (simp add: example_requests_def init_db_def example_db_def example_sha_def alice_def bob_def
      alice_todo_def bob_todo_def create_user_def encode_def create_todo_def get_current_user_def
      verify_password_def get_password_hash_def next_id_def Let_def)

section \<open>The claims\<close>

text \<open>
  Claim C1. A todo that user A owns is neither returned nor affected by what a different
  user B does. In a table whose ids are distinct (the primary key; it holds in every state
  the service reaches, \<open>keys_ok_reachable\<close>), for a row \<open>t\<close> of owner A and a caller
  B other than A: the list of B holds only rows of owner B, and not \<open>t\<close>; get, update and
  delete by B on the id of \<open>t\<close> raise NotFound, the very exception they raise on an id
  that no row of any table carries; and whatever id B updates or deletes with success,
  \<open>t\<close> is still in the table afterwards.
\<close>

theorem C1_owner_isolation:
  assumes d: "distinct (map todo_id (todos db))"
    and m: "t \<in> set (todos db)" and o: "owner t = A" and ne: "A \<noteq> B"
  shows "(\<forall>x\<in>set (read_todos B db). owner x = B) \<and> t \<notin> set (read_todos B db)
    \<and> read_todo (todo_id t) B db = Inl NotFound
    \<and> update_todo (todo_id t) todo B db = Inl NotFound
    \<and> delete_todo (todo_id t) B db = Inl NotFound
    \<and> (\<forall>db0 i. i \<notin> todo_id ` set (todos db0) \<longrightarrow>
          read_todo i B db0 = Inl NotFound \<and> update_todo i todo B db0 = Inl NotFound
          \<and> delete_todo i B db0 = Inl NotFound)
    \<and> (\<forall>i r db'. update_todo i todo B db = Inr (r, db') \<longrightarrow> t \<in> set (todos db'))
    \<and> (\<forall>i x db'. delete_todo i B db = Inr (x, db') \<longrightarrow> t \<in> set (todos db'))"
proof -
  have q: "query_todo (todo_id t) B db = None"
    using query_todo_unique [OF d m, of B] o ne by simp
  have other: "todo_id t \<noteq> todo_id s" if "query_todo i B db = Some s" for i s
  proof
    assume "todo_id t = todo_id s"
    moreover have "s \<in> set (todos db)" "owner s = B"
      using query_todo_Some [OF that] by simp_all
    ultimately have "t = s" using distinct_id_eq [OF d m] by simp
    then show False using o ne \<open>owner s = B\<close> by simp
  qed
  have l1: "\<forall>x\<in>set (read_todos B db). owner x = B"
    by (simp add: read_todos_def)
  have l2: "t \<notin> set (read_todos B db)"
    using o ne by (simp add: read_todos_def)
  have g: "read_todo (todo_id t) B db = Inl NotFound"
    by (simp add: read_todo_Inl q)
  have u: "update_todo (todo_id t) todo B db = Inl NotFound"
    by (simp add: update_todo_Inl q)
  have dl: "delete_todo (todo_id t) B db = Inl NotFound"
    by (simp add: delete_todo_Inl q)
  have absent: "read_todo i B db0 = Inl NotFound \<and> update_todo i todo B db0 = Inl NotFound
      \<and> delete_todo i B db0 = Inl NotFound" if "i \<notin> todo_id ` set (todos db0)" for db0 i
  proof -
    have "query_todo i B db0 = None"
      unfolding query_todo_None using that by auto
    then show ?thesis by (simp add: read_todo_Inl update_todo_Inl delete_todo_Inl)
  qed
  have upd: "t \<in> set (todos db')" if "update_todo i todo B db = Inr (r, db')" for i r db'
  proof -
    from that [unfolded update_todo_Inr] obtain s where
      s: "query_todo i B db = Some s" and
      db': "db' = db\<lparr>todos := map (\<lambda>x. if todo_id x = todo_id s then r else x) (todos db)\<rparr>"
      by fast
    have "(if todo_id t = todo_id s then r else t) = t" using other [OF s] by simp
    then have "t \<in> (\<lambda>x. if todo_id x = todo_id s then r else x) ` set (todos db)"
      using m by (rule image_eqI [OF sym])
    then show ?thesis unfolding db' by simp
  qed
  have del: "t \<in> set (todos db')" if "delete_todo i B db = Inr (x, db')" for i x db'
  proof -
    from that [unfolded delete_todo_Inr] obtain s :: TodoDB where
      s: "query_todo i B db = Some s" and
      db': "db' = db\<lparr>todos := filter (\<lambda>x. todo_id x \<noteq> todo_id s) (todos db)\<rparr>"
      by fast
    show ?thesis unfolding db' using other [OF s] m by simp
  qed
  have a2: "\<forall>db0 i. i \<notin> todo_id ` set (todos db0) \<longrightarrow>
          read_todo i B db0 = Inl NotFound \<and> update_todo i todo B db0 = Inl NotFound
          \<and> delete_todo i B db0 = Inl NotFound"
    by (intro allI impI) (rule absent)
  have u2: "\<forall>i r db'. update_todo i todo B db = Inr (r, db') \<longrightarrow> t \<in> set (todos db')"
    by (intro allI impI) (rule upd)
  have d2: "\<forall>i x db'. delete_todo i B db = Inr (x, db') \<longrightarrow> t \<in> set (todos db')"
    by (intro allI impI) (rule del)
  show ?thesis
    by (intro conjI) (fact l1 l2 g u dl a2 u2 d2)+
qed

theorem C1_owner_isolation_witness:
  "distinct (map todo_id (todos example_db)) \<and> alice_todo \<in> set (todos example_db)
   \<and> owner alice_todo = ''alice'' \<and> ''alice'' \<noteq> ''bob''
   \<and> read_todos ''bob'' example_db = [bob_todo]
   \<and> read_todo 1 ''bob'' example_db = Inl NotFound
   \<and> update_todo 1 \<lparr>body_title = ''mine'', body_completed = True\<rparr> ''bob'' example_db = Inl NotFound
   \<and> delete_todo 1 ''bob'' example_db = Inl NotFound
   \<and> read_todo 7 ''bob'' example_db = Inl NotFound
   \<and> delete_todo 2 ''bob'' example_db = Inr ((), example_db\<lparr>todos := [alice_todo]\<rparr>)
   \<and> alice_todo \<in> set (todos (example_db\<lparr>todos := [alice_todo]\<rparr>))"
proof -
  have d: "distinct (map todo_id (todos example_db))" by (simp add: ex_defs)
  have m: "alice_todo \<in> set (todos example_db)" by (simp add: ex_defs)
  have o: "owner alice_todo = ''alice''" by (simp add: ex_defs)
  have ne: "''alice'' \<noteq> ''bob''" by simp
  have del: "delete_todo 2 ''bob'' example_db = Inr ((), example_db\<lparr>todos := [alice_todo]\<rparr>)"
    by (simp add: delete_todo_def query_todo_def ex_defs)
  have l: "read_todos ''bob'' example_db = [bob_todo]"
    by (simp add: read_todos_def ex_defs)
  have absent: "7 \<notin> todo_id ` set (todos example_db)" by (simp add: ex_defs)
  have i: "todo_id alice_todo = 1" by (simp add: ex_defs)
  note c = C1_owner_isolation [OF d m o ne, of "\<lparr>body_title = ''mine'', body_completed = True\<rparr>",
      unfolded i]
  have g: "read_todo 1 ''bob'' example_db = Inl NotFound"
    and u: "update_todo 1 \<lparr>body_title = ''mine'', body_completed = True\<rparr> ''bob'' example_db = Inl NotFound"
    and dl: "delete_todo 1 ''bob'' example_db = Inl NotFound"
    using c by simp_all
  have g7: "read_todo 7 ''bob'' example_db = Inl NotFound"
    using c absent by simp
  have kept: "alice_todo \<in> set (todos (example_db\<lparr>todos := [alice_todo]\<rparr>))"
    using c del by simp
  show ?thesis
    by (intro conjI) (fact d m o ne l g u dl g7 del kept)+
qed

text \<open>
  Claim C2. With unique usernames, \<open>get_current_user\<close> returns the claimed username
  exactly when some user row has that username and the digest of the presented password
  as its stored digest, and raises Unauthorized otherwise (wrong password, or no such
  user). And once \<open>create_user\<close> has registered a username with a password, then after
  any further requests the gate accepts that username with a presented password when its
  digest equals that of the registered one, and answers Unauthorized when it does not.
\<close>

theorem C2_authentication:
  assumes d: "distinct (map username (users db))"
  shows "get_current_user sha256 credentials db =
      (if \<exists>u\<in>set (users db). username u = cred_username credentials \<and>
            get_password_hash sha256 (cred_password credentials) = hashed_password u
       then Inr (cred_username credentials) else Inl Unauthorized)
    \<and> (\<forall>user r db1 reqs. create_user sha256 user db = Inr (r, db1) \<longrightarrow>
          get_current_user sha256 \<lparr>cred_username = new_username user, cred_password = presented\<rparr>
              (run sha256 reqs db1) =
          (if get_password_hash sha256 presented = get_password_hash sha256 (new_password user)
           then Inr (new_username user) else Inl Unauthorized))"
proof (intro conjI allI impI)
  show "get_current_user sha256 credentials db =
      (if \<exists>u\<in>set (users db). username u = cred_username credentials \<and>
            get_password_hash sha256 (cred_password credentials) = hashed_password u
       then Inr (cred_username credentials) else Inl Unauthorized)"
    by (rule get_current_user_unique [OF d])
next
  fix user r db1 reqs
  assume reg: "create_user sha256 user db = Inr (r, db1)"
  show "get_current_user sha256 \<lparr>cred_username = new_username user, cred_password = presented\<rparr>
              (run sha256 reqs db1) =
          (if get_password_hash sha256 presented = get_password_hash sha256 (new_password user)
           then Inr (new_username user) else Inl Unauthorized)"
    using registered_row_persists(1) [OF reg, of reqs] registered_row_persists(2,3) [OF reg]
    by (simp add: get_current_user_def verify_password_def get_password_hash_def)
qed

theorem C2_authentication_witness:
  "distinct (map username (users example_db))
   \<and> get_current_user example_sha alice example_db = Inr ''alice''
   \<and> get_current_user example_sha \<lparr>cred_username = ''alice'', cred_password = ''pw2''\<rparr> example_db
       = Inl Unauthorized
   \<and> get_current_user example_sha \<lparr>cred_username = ''carol'', cred_password = ''pw1''\<rparr> example_db
       = Inl Unauthorized
   \<and> get_current_user example_sha \<lparr>cred_username = ''carol'', cred_password = ''pw3''\<rparr>
        (run example_sha [DELETE_todo bob 2]
          (example_db\<lparr>users := users example_db @
             [\<lparr>user_id = 3, username = ''carol'', hashed_password = ''sha256(pw3)''\<rparr>]\<rparr>))
       = Inr ''carol''"
proof -
  have d: "distinct (map username (users example_db))" by (simp add: ex_defs)
  have reg: "create_user example_sha \<lparr>new_username = ''carol'', new_password = ''pw3''\<rparr> example_db =
      Inr (\<lparr>user_id = 3, username = ''carol'', hashed_password = ''sha256(pw3)''\<rparr>,
           example_db\<lparr>users := users example_db @
             [\<lparr>user_id = 3, username = ''carol'', hashed_password = ''sha256(pw3)''\<rparr>]\<rparr>)"
    by (simp add: create_user_def encode_def get_password_hash_def example_sha_def next_id_def Let_def ex_defs)
  note now = C2_authentication [OF d, where ?sha256.0 = example_sha, THEN conjunct1]
  note later = C2_authentication [OF d, where ?sha256.0 = example_sha and presented = "''pw3''",
      THEN conjunct2, rule_format, OF reg, of "[DELETE_todo bob 2]"]
  have a: "get_current_user example_sha alice example_db = Inr ''alice''"
    using now [of alice] by (simp add: get_password_hash_def example_sha_def alice_def ex_defs)
  have b: "get_current_user example_sha \<lparr>cred_username = ''alice'', cred_password = ''pw2''\<rparr> example_db
       = Inl Unauthorized"
    using now [of "\<lparr>cred_username = ''alice'', cred_password = ''pw2''\<rparr>"]
    by (simp add: get_password_hash_def example_sha_def ex_defs)
  have c: "get_current_user example_sha \<lparr>cred_username = ''carol'', cred_password = ''pw1''\<rparr> example_db
       = Inl Unauthorized"
    using now [of "\<lparr>cred_username = ''carol'', cred_password = ''pw1''\<rparr>"]
    by (simp add: ex_defs)
  have e: "get_current_user example_sha \<lparr>cred_username = ''carol'', cred_password = ''pw3''\<rparr>
        (run example_sha [DELETE_todo bob 2]
          (example_db\<lparr>users := users example_db @
             [\<lparr>user_id = 3, username = ''carol'', hashed_password = ''sha256(pw3)''\<rparr>]\<rparr>))
       = Inr ''carol''"
    using later by simp
  show ?thesis
    by (intro conjI) (fact d a b c e)+
qed



text \<open>
  Claim C4. After a username has been registered, registering it again, at once or after
  any further requests and with any password, raises Conflict; the request leaves the
  database as it was, and the row of the username is still the one the first
  registration stored, with the digest of the first password.
\<close>

theorem C4_duplicate_username:
  assumes "create_user sha256 \<lparr>new_username = name, new_password = pw\<rparr> db = Inr (r, db1)"
  shows "create_user sha256 \<lparr>new_username = name, new_password = pw2\<rparr> (run sha256 reqs db1) = Inl Conflict
    \<and> serve sha256 (POST_users \<lparr>new_username = name, new_password = pw2\<rparr>) (run sha256 reqs db1)
       = (Error Conflict, run sha256 reqs db1)
    \<and> first (filter (\<lambda>u. username u = name) (users (run sha256 reqs db1))) = Some r
    \<and> hashed_password r = get_password_hash sha256 pw"
proof -
  have found: "first (filter (\<lambda>u. username u = name) (users (run sha256 reqs db1))) = Some r"
    and hp: "hashed_password r = sha256 pw"
    using registered_row_persists(1) [OF assms, of reqs] registered_row_persists(3) [OF assms]
    by simp_all
  have "\<not> has_surrogate name"
    using assms unfolding create_user_Inr by simp
  then have "create_user sha256 \<lparr>new_username = name, new_password = pw2\<rparr> (run sha256 reqs db1) = Inl Conflict"
    using found by (simp add: create_user_def encode_def)
  then show ?thesis using found hp by (simp add: get_password_hash_def)
qed

theorem C4_duplicate_username_witness:
  "create_user example_sha \<lparr>new_username = ''alice'', new_password = ''pw1''\<rparr> init_db
     = Inr (\<lparr>user_id = 1, username = ''alice'', hashed_password = ''sha256(pw1)''\<rparr>,
            \<lparr>users = [\<lparr>user_id = 1, username = ''alice'', hashed_password = ''sha256(pw1)''\<rparr>],
             todos = []\<rparr>)
   \<and> serve example_sha (POST_users \<lparr>new_username = ''alice'', new_password = ''other''\<rparr>)
        (run example_sha (tl example_requests)
          \<lparr>users = [\<lparr>user_id = 1, username = ''alice'', hashed_password = ''sha256(pw1)''\<rparr>],
           todos = []\<rparr>)
     = (Error Conflict,
        run example_sha (tl example_requests)
          \<lparr>users = [\<lparr>user_id = 1, username = ''alice'', hashed_password = ''sha256(pw1)''\<rparr>],
           todos = []\<rparr>)"
proof -
  have reg: "create_user example_sha \<lparr>new_username = ''alice'', new_password = ''pw1''\<rparr> init_db
     = Inr (\<lparr>user_id = 1, username = ''alice'', hashed_password = ''sha256(pw1)''\<rparr>,
            \<lparr>users = [\<lparr>user_id = 1, username = ''alice'', hashed_password = ''sha256(pw1)''\<rparr>],
             todos = []\<rparr>)"
    by (simp add: create_user_def encode_def get_password_hash_def example_sha_def next_id_def Let_def init_db_def)
  show ?thesis
    by (intro conjI, rule reg)
       (rule C4_duplicate_username [OF reg, where ?pw2.0 = "''other''" and reqs = "tl example_requests",
          THEN conjunct2, THEN conjunct1])
qed





text \<open>
  A delete that succeeds leaves no row of the id for the caller, and a delete that raises
  has found none: after either, the query of the caller on the id finds nothing.
\<close>

lemma delete_todo_then_absent:
  "(\<forall>e. delete_todo tid current_user db = Inl e \<longrightarrow>
        e = NotFound \<and> query_todo tid current_user db = None)
   \<and> (\<forall>x db'. delete_todo tid current_user db = Inr (x, db') \<longrightarrow>
        users db' = users db \<and> query_todo tid current_user db' = None)"
proof (intro conjI allI impI)
  fix e assume "delete_todo tid current_user db = Inl e"
  then show "e = NotFound" "query_todo tid current_user db = None"
    by (simp_all add: delete_todo_Inl)
next
  fix x db' assume "delete_todo tid current_user db = Inr (x, db')"
  from this [unfolded delete_todo_Inr] obtain t :: TodoDB where
    t: "query_todo tid current_user db = Some t" and
    db': "db' = db\<lparr>todos := filter (\<lambda>x. todo_id x \<noteq> todo_id t) (todos db)\<rparr>"
    by fast
  have "todo_id t = tid" using query_todo_Some [OF t] by simp
  then show "query_todo tid current_user db' = None"
    unfolding query_todo_None db' by simp
  show "users db' = users db"
    unfolding db' by simp
qed

text \<open>
  Claim C7, as amended. For an authenticated caller and an id in the engine's signed
  64-bit range, DELETE /todos/{id} answers 204 or NotFound; in the database it leaves, a
  get of the id by the caller answers NotFound, and so does a second delete. For an id
  outside that range the query raises \<open>OverflowError\<close>: delete and get are answered
  with that exception (status 500), not with NotFound, and the database stays as it was.
\<close>

theorem C7_delete_then_get:
  assumes auth: "get_current_user sha256 credentials db = Inr caller"
  shows "(sqlite_int tid \<longrightarrow>
        (fst (serve sha256 (DELETE_todo credentials tid) db) = No_content
           \<or> fst (serve sha256 (DELETE_todo credentials tid) db) = Error NotFound)
        \<and> fst (serve sha256 (GET_todo credentials tid)
                 (snd (serve sha256 (DELETE_todo credentials tid) db))) = Error NotFound
        \<and> fst (serve sha256 (DELETE_todo credentials tid)
                 (snd (serve sha256 (DELETE_todo credentials tid) db))) = Error NotFound)
    \<and> (\<not> sqlite_int tid \<longrightarrow>
        serve sha256 (DELETE_todo credentials tid) db = (Error OverflowError, db)
        \<and> serve sha256 (GET_todo credentials tid) db = (Error OverflowError, db))"
proof (intro conjI impI)
  assume out: "\<not> sqlite_int tid"
  show "serve sha256 (DELETE_todo credentials tid) db = (Error OverflowError, db)"
    "serve sha256 (GET_todo credentials tid) db = (Error OverflowError, db)"
    using auth out by (simp_all add: bind_id_def)
next
  assume range: "sqlite_int tid"
  define db1 where "db1 = snd (serve sha256 (DELETE_todo credentials tid) db)"
  note absent = delete_todo_then_absent [of tid caller db]
  have first_call: "(fst (serve sha256 (DELETE_todo credentials tid) db) = No_content
      \<or> fst (serve sha256 (DELETE_todo credentials tid) db) = Error NotFound)
      \<and> users db1 = users db \<and> query_todo tid caller db1 = None"
  proof (cases "delete_todo tid caller db")
    case (Inl e)
    then have "e = NotFound" "query_todo tid caller db = None"
      using absent by simp_all
    then show ?thesis using Inl auth range by (simp add: db1_def bind_id_def)
  next
    case (Inr p)
    obtain x db' where p: "p = (x, db')" by (cases p)
    have "users db' = users db" "query_todo tid caller db' = None"
      using absent Inr p by simp_all
    then show ?thesis using Inr p auth range by (simp add: db1_def bind_id_def)
  qed
  have auth1: "get_current_user sha256 credentials db1 = Inr caller"
    using auth first_call by (simp add: get_current_user_def)
  have none: "query_todo tid caller db1 = None"
    using first_call by simp
  show "fst (serve sha256 (DELETE_todo credentials tid) db) = No_content
      \<or> fst (serve sha256 (DELETE_todo credentials tid) db) = Error NotFound"
    using first_call by simp
  show "fst (serve sha256 (GET_todo credentials tid)
                 (snd (serve sha256 (DELETE_todo credentials tid) db))) = Error NotFound"
    unfolding db1_def [symmetric] using auth1 range none
    by (simp add: bind_id_def read_todo_def)
  show "fst (serve sha256 (DELETE_todo credentials tid)
                 (snd (serve sha256 (DELETE_todo credentials tid) db))) = Error NotFound"
    unfolding db1_def [symmetric] using auth1 range none
    by (simp add: bind_id_def delete_todo_def)
qed

theorem C7_delete_then_get_witness:
  "get_current_user example_sha alice example_db = Inr ''alice'' \<and> sqlite_int 1
   \<and> serve example_sha (DELETE_todo alice 1) example_db
      = (No_content, example_db\<lparr>todos := [bob_todo]\<rparr>)
   \<and> fst (serve example_sha (GET_todo alice 1) (example_db\<lparr>todos := [bob_todo]\<rparr>))
      = Error NotFound
   \<and> fst (serve example_sha (DELETE_todo alice 1) (example_db\<lparr>todos := [bob_todo]\<rparr>))
      = Error NotFound"
proof -
  have a: "get_current_user example_sha alice example_db = Inr ''alice''"
    by (simp add: get_current_user_def verify_password_def get_password_hash_def example_sha_def
        alice_def ex_defs)
  have r: "sqlite_int 1"
    by (simp add: sqlite_int_def)
  have del: "serve example_sha (DELETE_todo alice 1) example_db
      = (No_content, example_db\<lparr>todos := [bob_todo]\<rparr>)"
    using a r by (simp add: bind_id_def delete_todo_def query_todo_def ex_defs)
  note after = C7_delete_then_get [OF a, of 1, THEN conjunct1, rule_format, OF r, unfolded del snd_conv]
  show ?thesis
    by (intro conjI) (rule a r del after [THEN conjunct2, THEN conjunct1]
        after [THEN conjunct2, THEN conjunct2])+
qed

text \<open>
  The claim as it was stated, for every id, fails at the id \<open>2 ^ 63\<close>: alice is
  authenticated and owns no such todo, and neither the delete nor the get that follows
  is answered with NotFound.
\<close>

theorem C7_every_id_counterexample:
  "get_current_user example_sha alice example_db = Inr ''alice''
   \<and> serve example_sha (DELETE_todo alice 9223372036854775808) example_db
      = (Error OverflowError, example_db)
   \<and> serve example_sha (GET_todo alice 9223372036854775808) example_db
      = (Error OverflowError, example_db)
   \<and> Error OverflowError \<noteq> Error NotFound"
  by (simp add: get_current_user_def verify_password_def get_password_hash_def example_sha_def
      alice_def ex_defs bind_id_def sqlite_int_def NotFound_def)

text \<open>
  Claim C8. Frame of an update that succeeds (ids distinct): the keys of \<open>todo.dict()\<close>
  are \<open>title\<close> and \<open>completed\<close> alone, so the \<open>setattr\<close> loop leaves id and owner of
  any object as they were; the returned row has the requested id and the caller as owner;
  the users table is unchanged; and the todos table is the old one with title and
  completed replaced in the row of the requested id and every other row as it was.
\<close>

theorem C8_update_frame:
  assumes d: "distinct (map todo_id (todos db))"
    and upd: "update_todo tid todo current_user db = Inr (r, db')"
  shows "map fst (TodoCreate_dict todo) = [''title'', ''completed'']
    \<and> (\<forall>obj. todo_id (fold (\<lambda>(key, value) obj. setattr obj key value) (TodoCreate_dict todo) obj) = todo_id obj
            \<and> owner (fold (\<lambda>(key, value) obj. setattr obj key value) (TodoCreate_dict todo) obj) = owner obj)
    \<and> todo_id r = tid \<and> owner r = current_user
    \<and> users db' = users db
    \<and> todos db' = map (\<lambda>t. if todo_id t = tid
                              then t\<lparr>title := body_title todo, completed := body_completed todo\<rparr>
                              else t) (todos db)"
proof -
  from upd [unfolded update_todo_Inr] obtain t where
    q: "query_todo tid current_user db = Some t" and
    r: "r = t\<lparr>title := body_title todo, completed := body_completed todo\<rparr>" and
    db': "db' = db\<lparr>todos := map (\<lambda>x. if todo_id x = todo_id t then r else x) (todos db)\<rparr>"
    by fast
  have t: "t \<in> set (todos db)" "todo_id t = tid" "owner t = current_user"
    using query_todo_Some [OF q] by simp_all
  have keys: "map fst (TodoCreate_dict todo) = [''title'', ''completed'']"
    by (simp add: TodoCreate_dict_def)
  have loop: "\<forall>obj. todo_id (fold (\<lambda>(key, value) obj. setattr obj key value) (TodoCreate_dict todo) obj) = todo_id obj
            \<and> owner (fold (\<lambda>(key, value) obj. setattr obj key value) (TodoCreate_dict todo) obj) = owner obj"
    unfolding update_loop by simp
  have row: "(if todo_id x = todo_id t then r else x) =
      (if todo_id x = tid then x\<lparr>title := body_title todo, completed := body_completed todo\<rparr> else x)"
    if "x \<in> set (todos db)" for x
  proof (cases "todo_id x = todo_id t")
    case True
    then have "x = t" using distinct_id_eq [OF d that t(1)] by simp
    then show ?thesis by (simp add: r t(2))
  next
    case False
    then show ?thesis by (simp add: t(2))
  qed
  have rows: "todos db' = map (\<lambda>t. if todo_id t = tid
                              then t\<lparr>title := body_title todo, completed := body_completed todo\<rparr>
                              else t) (todos db)"
    unfolding db' using row by simp
  have idr: "todo_id r = tid" and own: "owner r = current_user" and us: "users db' = users db"
    by (simp_all add: r t db')
  show ?thesis
    by (intro conjI) (fact keys loop idr own us rows)+
qed

theorem C8_update_frame_witness:
  "distinct (map todo_id (todos example_db))
   \<and> update_todo 2 \<lparr>body_title = ''call mum'', body_completed = True\<rparr> ''bob'' example_db
      = Inr (\<lparr>todo_id = 2, title = ''call mum'', completed = True, owner = ''bob''\<rparr>,
             example_db\<lparr>todos :=
               [alice_todo, \<lparr>todo_id = 2, title = ''call mum'', completed = True, owner = ''bob''\<rparr>]\<rparr>)
   \<and> users (example_db\<lparr>todos :=
               [alice_todo, \<lparr>todo_id = 2, title = ''call mum'', completed = True, owner = ''bob''\<rparr>]\<rparr>)
      = users example_db
   \<and> todos (example_db\<lparr>todos :=
               [alice_todo, \<lparr>todo_id = 2, title = ''call mum'', completed = True, owner = ''bob''\<rparr>]\<rparr>)
      = map (\<lambda>t. if todo_id t = 2 then t\<lparr>title := ''call mum'', completed := True\<rparr> else t)
          (todos example_db)"
proof -
  have d: "distinct (map todo_id (todos example_db))" by (simp add: ex_defs)
  have upd: "update_todo 2 \<lparr>body_title = ''call mum'', body_completed = True\<rparr> ''bob'' example_db
      = Inr (\<lparr>todo_id = 2, title = ''call mum'', completed = True, owner = ''bob''\<rparr>,
             example_db\<lparr>todos :=
               [alice_todo, \<lparr>todo_id = 2, title = ''call mum'', completed = True, owner = ''bob''\<rparr>]\<rparr>)"
    by (simp add: update_todo_def query_todo_def TodoCreate_dict_def Let_def ex_defs)
  note c = C8_update_frame [OF d upd]
  have us: "users (example_db\<lparr>todos :=
               [alice_todo, \<lparr>todo_id = 2, title = ''call mum'', completed = True, owner = ''bob''\<rparr>]\<rparr>)
      = users example_db"
    using c by simp
  have rows: "todos (example_db\<lparr>todos :=
               [alice_todo, \<lparr>todo_id = 2, title = ''call mum'', completed = True, owner = ''bob''\<rparr>]\<rparr>)
      = map (\<lambda>t. if todo_id t = 2 then t\<lparr>title := ''call mum'', completed := True\<rparr> else t)
          (todos example_db)"
    using c by simp
  show ?thesis
    by (intro conjI) (fact d upd us rows)+
qed

text \<open>
  Claim C9. The stored digest is \<open>get_password_hash\<close> of the password alone: two
  registrations with the same password, of any two usernames and in any two databases
  (the same run or two different runs), store the same digest.
\<close>

theorem C9_unsalted_digest:
  assumes "create_user sha256 \<lparr>new_username = name1, new_password = pw\<rparr> db1 = Inr (r1, db1')"
    and "create_user sha256 \<lparr>new_username = name2, new_password = pw\<rparr> db2 = Inr (r2, db2')"
  shows "hashed_password r1 = hashed_password r2
    \<and> hashed_password r1 = get_password_hash sha256 pw
    \<and> r1 \<in> set (users db1') \<and> r2 \<in> set (users db2')"
  using assms unfolding create_user_Inr by (simp add: get_password_hash_def)

theorem C9_unsalted_digest_witness:
  "create_user example_sha \<lparr>new_username = ''carol'', new_password = ''pw1''\<rparr> example_db
     = Inr (\<lparr>user_id = 3, username = ''carol'', hashed_password = ''sha256(pw1)''\<rparr>,
            example_db\<lparr>users := users example_db @
              [\<lparr>user_id = 3, username = ''carol'', hashed_password = ''sha256(pw1)''\<rparr>]\<rparr>)
   \<and> create_user example_sha \<lparr>new_username = ''dave'', new_password = ''pw1''\<rparr> init_db
     = Inr (\<lparr>user_id = 1, username = ''dave'', hashed_password = ''sha256(pw1)''\<rparr>,
            init_db\<lparr>users := [\<lparr>user_id = 1, username = ''dave'', hashed_password = ''sha256(pw1)''\<rparr>]\<rparr>)
   \<and> hashed_password \<lparr>user_id = 3, username = ''carol'', hashed_password = ''sha256(pw1)''\<rparr>
     = hashed_password \<lparr>user_id = 1, username = ''dave'', hashed_password = ''sha256(pw1)''\<rparr>
   \<and> hashed_password (hd (users example_db)) = ''sha256(pw1)''"
proof -
  have r1: "create_user example_sha \<lparr>new_username = ''carol'', new_password = ''pw1''\<rparr> example_db
     = Inr (\<lparr>user_id = 3, username = ''carol'', hashed_password = ''sha256(pw1)''\<rparr>,
            example_db\<lparr>users := users example_db @
              [\<lparr>user_id = 3, username = ''carol'', hashed_password = ''sha256(pw1)''\<rparr>]\<rparr>)"
    by (simp add: create_user_def encode_def get_password_hash_def example_sha_def next_id_def Let_def ex_defs)
  have r2: "create_user example_sha \<lparr>new_username = ''dave'', new_password = ''pw1''\<rparr> init_db
     = Inr (\<lparr>user_id = 1, username = ''dave'', hashed_password = ''sha256(pw1)''\<rparr>,
            init_db\<lparr>users := [\<lparr>user_id = 1, username = ''dave'', hashed_password = ''sha256(pw1)''\<rparr>]\<rparr>)"
    by (simp add: create_user_def encode_def get_password_hash_def example_sha_def next_id_def Let_def init_db_def)
  have same: "hashed_password \<lparr>user_id = 3, username = ''carol'', hashed_password = ''sha256(pw1)''\<rparr>
     = hashed_password \<lparr>user_id = 1, username = ''dave'', hashed_password = ''sha256(pw1)''\<rparr>"
    by (rule C9_unsalted_digest [OF r1 r2, THEN conjunct1])
  have al: "hashed_password (hd (users example_db)) = ''sha256(pw1)''"
    by (simp add: ex_defs)
  show ?thesis
    by (intro conjI) (fact r1 r2 same al)+
qed

text \<open>
  Claim C10, as amended. \<open>create_user\<close> validates nothing, and it succeeds for every
  username and password that have a UTF-8 encoding, the empty strings included, when no
  row has the username: it appends the row of that username with the digest of the
  password and leaves the todos alone. When the username or the password holds a
  surrogate, the call raises \<open>UnicodeEncodeError\<close> instead and creates nothing.
\<close>

theorem C10_register_unvalidated:
  assumes "\<forall>u\<in>set (users db). username u \<noteq> name"
  shows "(\<not> has_surrogate name \<and> \<not> has_surrogate pw \<longrightarrow>
      (\<exists>r db'. create_user sha256 \<lparr>new_username = name, new_password = pw\<rparr> db = Inr (r, db')
        \<and> username r = name \<and> hashed_password r = get_password_hash sha256 pw
        \<and> users db' = users db @ [r] \<and> todos db' = todos db))
    \<and> (has_surrogate name \<or> has_surrogate pw \<longrightarrow>
      create_user sha256 \<lparr>new_username = name, new_password = pw\<rparr> db = Inl UnicodeEncodeError)"
proof (intro conjI impI)
  assume "\<not> has_surrogate name \<and> \<not> has_surrogate pw"
  then show "\<exists>r db'. create_user sha256 \<lparr>new_username = name, new_password = pw\<rparr> db = Inr (r, db')
        \<and> username r = name \<and> hashed_password r = get_password_hash sha256 pw
        \<and> users db' = users db @ [r] \<and> todos db' = todos db"
    using assms unfolding create_user_Inr by (simp add: get_password_hash_def)
next
  assume "has_surrogate name \<or> has_surrogate pw"
  then show "create_user sha256 \<lparr>new_username = name, new_password = pw\<rparr> db = Inl UnicodeEncodeError"
    using assms unfolding create_user_Inl by auto
qed

theorem C10_register_unvalidated_witness:
  "\<not> has_surrogate '''' \<and>
   create_user example_sha \<lparr>new_username = '''', new_password = ''''\<rparr> example_db
     = Inr (\<lparr>user_id = 3, username = '''', hashed_password = ''sha256()''\<rparr>,
            example_db\<lparr>users := users example_db @
              [\<lparr>user_id = 3, username = '''', hashed_password = ''sha256()''\<rparr>]\<rparr>)"
proof -
  have free: "\<forall>u\<in>set (users example_db). username u \<noteq> ''''"
    by (simp add: ex_defs)
  have enc: "\<not> has_surrogate '''' \<and> \<not> has_surrogate ''''"
    by simp
  from C10_register_unvalidated [OF free, where pw = "''''" and ?sha256.0 = example_sha,
      THEN conjunct1, rule_format, OF enc]
  obtain r db' where
    c: "create_user example_sha \<lparr>new_username = '''', new_password = ''''\<rparr> example_db = Inr (r, db')"
    by fast
  then show ?thesis
    by (simp add: create_user_def encode_def get_password_hash_def example_sha_def next_id_def
        Let_def ex_defs)
qed

text \<open>
  The claim as it was stated, for every pair of strings, fails at the password that is
  the one code point D800: no user is called carol, and the registration of carol with
  that password raises.
\<close>

theorem C10_every_string_counterexample:
  "map username (users example_db) = [''alice'', ''bob'']
   \<and> create_user example_sha
        \<lparr>new_username = ''carol'', new_password = [CHR 0xED, CHR 0xA0, CHR 0x80]\<rparr> example_db
      = Inl UnicodeEncodeError"
  by (simp add: create_user_def encode_def ex_defs)

end
